theory Spec2Isabelle
  imports Main "HOL-Library.Sublist"
begin

section \<open>The server-info response\<close>

text \<open>
  The script \<^verbatim>\<open>static/js/server_info.js\<close> receives the parsed JSON body of
  \<^verbatim>\<open>GET {api_url}/server_info\<close> and reads the properties \<^verbatim>\<open>servername\<close>,
  \<^verbatim>\<open>map.name\<close>, \<^verbatim>\<open>map.image\<close>, \<^verbatim>\<open>players[].name\<close> and \<^verbatim>\<open>players[].skin\<close>.

  The model covers JSON objects whose properties, where present, have the expected
  type: a text property is a string, \<^verbatim>\<open>map\<close> is an object. A property that is missing
  reads as JavaScript's \<^verbatim>\<open>undefined\<close> and is \<open>None\<close> here. For \<^verbatim>\<open>players\<close> the
  model also has a value that is present and is not an array. Strings are lists of
  characters.
\<close>

record map_info =
  name :: "string option"
  image :: "string option"

record player =
  name :: "string option"
  skin :: "string option"

datatype players_value =
    Missing
  | Not_a_sequence
  | Sequence "player list"

record response =
  servername :: "string option"
  map_data :: "map_info option"
  players :: players_value

text \<open>
  A valid \<^verbatim>\<open>ServerInfoResponse\<close> has every property of the data model: the server name,
  the map with its name and image identifier, and a sequence of players that each have
  a name and a skin.
\<close>

definition valid_player :: "player \<Rightarrow> bool" where
  "valid_player p = (player.name p \<noteq> None \<and> skin p \<noteq> None)"

definition valid_response :: "response \<Rightarrow> bool" where
  "valid_response data =
     (servername data \<noteq> None \<and>
      (case map_data data of
         None \<Rightarrow> False
       | Some m \<Rightarrow> map_info.name m \<noteq> None \<and> image m \<noteq> None) \<and>
      (case players data of
         Sequence ps \<Rightarrow> list_all valid_player ps
       | _ \<Rightarrow> False))"

section \<open>JavaScript values and errors\<close>

text \<open>
  The errors the script can meet. A \<^verbatim>\<open>TypeError\<close> is thrown by reading a property of
  \<^verbatim>\<open>undefined\<close> and by calling what is not a function; it is also what the promise of
  \<^verbatim>\<open>fetch\<close> is rejected with when the network fails. A \<^verbatim>\<open>SyntaxError\<close> is what
  \<^verbatim>\<open>response.json()\<close> is rejected with when the body is not JSON.
\<close>

datatype js_error = TypeError | SyntaxError

text \<open>
  \<^verbatim>\<open>ToString\<close> of a value that is a string or \<^verbatim>\<open>undefined\<close>: what an assignment to
  \<^verbatim>\<open>innerHTML\<close> stores.
\<close>

definition to_string :: "string option \<Rightarrow> string" where
  "to_string v = (case v of None \<Rightarrow> ''undefined'' | Some s \<Rightarrow> s)"

text \<open>\<^verbatim>\<open>undefined\<close> and the empty string are falsy, every other string is truthy.\<close>

definition truthy :: "string option \<Rightarrow> bool" where
  "truthy v = (case v of None \<Rightarrow> False | Some s \<Rightarrow> s \<noteq> [])"

definition squote :: string where
  "squote = [CHR 0x27]"

definition dquote :: char where
  "dquote = CHR 0x22"

section \<open>The escaping helper\<close>

text \<open>
  Modelled from the spec: the helper \<^verbatim>\<open>String.prototype.escape\<close>, which the script
  calls as \<^verbatim>\<open>player.name.escape()\<close> and \<^verbatim>\<open>player.skin.escape()\<close>, is defined outside
  \<^verbatim>\<open>server_info.js\<close>. The spec calls it HTML-escaping of the characters
  \<^verbatim>\<open><\<close>, \<^verbatim>\<open>>\<close>, \<^verbatim>\<open>&\<close> and the double quote, and gives \<^verbatim>\<open>A<b>\<close> \<open>\<mapsto>\<close> \<^verbatim>\<open>A&lt;b&gt;\<close>;
  each of the four characters becomes its named character reference.
\<close>

definition escape_char :: "char \<Rightarrow> string" where
  "escape_char c =
     (if c = CHR ''&'' then ''&amp;''
      else if c = CHR ''<'' then ''&lt;''
      else if c = CHR ''>'' then ''&gt;''
      else if c = dquote then ''&quot;''
      else [c])"

definition escape :: "string \<Rightarrow> string" where
  "escape s = concat (map escape_char s)"

section \<open>The document\<close>

text \<open>
  The script holds three elements found by id when it is loaded (\<^verbatim>\<open>players_table\<close>,
  \<^verbatim>\<open>server_name\<close>, \<^verbatim>\<open>map_title\<close>) and the document body. They are taken to exist and
  to be distinct, none inside another. The state of the document is
  \<^item> the markup last assigned to \<^verbatim>\<open>map_title.innerHTML\<close> and to
    \<^verbatim>\<open>server_name.innerHTML\<close>,
  \<^item> the child elements of \<^verbatim>\<open>players_table\<close>, in document order,
  \<^item> \<^verbatim>\<open>document.body.style.backgroundImage\<close>,
  \<^item> and the rest of the document: every other place that a script can write (the
    content of another element, an attribute, another style property), by name, with
    the string it holds.
  An element made by \<^verbatim>\<open>document.createElement\<close> is its tag name and the markup assigned
  to its \<^verbatim>\<open>innerHTML\<close>.
\<close>

datatype element = Element (tagName: string) (innerHTML: string)

record dom =
  map_title :: string
  server_name :: string
  players_table :: "element list"
  background_image :: string
  rest :: "string \<Rightarrow> string"

text \<open>
  The script never reads the document, it only writes to it. Its statements are
  modelled by the writes they make, in program order. The first five kinds of write are
  assignments to the four places above. \<open>Write_elsewhere place v\<close> is any other write the
  DOM offers (to the content of another element, to an attribute, to another style
  property): it stores \<open>v\<close> at that place of the rest of the document.
\<close>

datatype dom_write =
    Set_map_title string
  | Set_server_name string
  | Clear_players_table
  | Set_background_image string
  | Append_player_row element
  | Write_elsewhere string string

text \<open>
  \<open>perform\<close> is the effect of one write on the document. An assignment to
  \<^verbatim>\<open>style.backgroundImage\<close> takes effect only when the browser's CSS parser accepts the
  assigned string as a value of \<^verbatim>\<open>background-image\<close>; a string it does not accept is
  dropped and the property keeps the value it had. Which strings the parser accepts is
  the parameter \<open>css\<close>: the theorems below hold for every parser. An accepted value is
  kept here as the string that was assigned.
\<close>

fun perform :: "(string \<Rightarrow> bool) \<Rightarrow> dom \<Rightarrow> dom_write \<Rightarrow> dom" where
  "perform css d (Set_map_title s) = d\<lparr>map_title := s\<rparr>"
| "perform css d (Set_server_name s) = d\<lparr>server_name := s\<rparr>"
| "perform css d Clear_players_table = d\<lparr>players_table := []\<rparr>"
| "perform css d (Set_background_image s) = (if css s then d\<lparr>background_image := s\<rparr> else d)"
| "perform css d (Append_player_row tr) = d\<lparr>players_table := players_table d @ [tr]\<rparr>"
| "perform css d (Write_elsewhere place v) = d\<lparr>rest := (rest d)(place := v)\<rparr>"

definition perform_all :: "(string \<Rightarrow> bool) \<Rightarrow> dom \<Rightarrow> dom_write list \<Rightarrow> dom" where
  "perform_all css d ws = foldl (perform css) d ws"

text \<open>The writes that go to one of the four places.\<close>

fun one_of_four :: "dom_write \<Rightarrow> bool" where
  "one_of_four (Write_elsewhere place v) = False"
| "one_of_four w = True"

text \<open>
  A run of script code is the list of writes it made and the error it threw, if any.
  \<open>page_after\<close> is the document such a run leaves behind.
\<close>

type_synonym run = "dom_write list \<times> js_error option"

definition page_after :: "(string \<Rightarrow> bool) \<Rightarrow> run \<Rightarrow> dom \<Rightarrow> dom" where
  "page_after css r d = perform_all css d (fst r)"

text \<open>
  A value of the shape \<^verbatim>\<open>url('X')\<close> is a quoted URL when \<open>X\<close> has no single quote, no
  backslash and no line break: then the quotes enclose \<open>X\<close> as one CSS string, and every
  browser accepts the value. A single quote inside \<open>X\<close> ends the CSS string early and leaves
  text behind it that is no part of a URL value. \<open>quoted_url\<close> also serves as the parser
  of the examples: a browser that accepts the quoted URLs and no other string.
\<close>

definition plain_url_char :: "char \<Rightarrow> bool" where
  "plain_url_char c =
     (c \<noteq> CHR 0x27 \<and> c \<noteq> CHR 0x5C \<and> c \<noteq> CHR 0x0A \<and> c \<noteq> CHR 0x0C \<and> c \<noteq> CHR 0x0D)"

definition quoted_url :: "string \<Rightarrow> bool" where
  "quoted_url v =
     (7 \<le> length v \<and>
      take 5 v = ''url('' @ squote \<and>
      drop (length v - 2) v = squote @ '')'' \<and>
      list_all plain_url_char (take (length v - 7) (drop 5 v)))"

section \<open>The script\<close>

text \<open>
  \<^verbatim>\<open>
  function update_background(image) {
      if (image && image != "None") {
          document.body.style.backgroundImage = "url('" + static_dir + "/img/" + image + "')"
      }
  }
  \<close>
  The global \<^verbatim>\<open>static_dir\<close> is a parameter.
\<close>

definition update_background :: "string \<Rightarrow> string option \<Rightarrow> dom_write list" where
  "update_background static_dir img =
     (if truthy img \<and> img \<noteq> Some ''None''
      then [Set_background_image
              (''url('' @ squote @ static_dir @ ''/img/'' @ to_string img @ squote @ '')'')]
      else [])"

text \<open>
  The body of the \<^verbatim>\<open>forEach\<close> callback: \<^verbatim>\<open>tr\<close> is created, then its markup is built.
  Calling \<^verbatim>\<open>escape\<close> on \<^verbatim>\<open>undefined\<close> throws a \<^verbatim>\<open>TypeError\<close>, and then the row is not
  appended.
\<close>

definition player_row :: "player \<Rightarrow> js_error + element" where
  "player_row p =
     (case player.name p of
        None \<Rightarrow> Inl TypeError
      | Some n \<Rightarrow>
          (case skin p of
             None \<Rightarrow> Inl TypeError
           | Some s \<Rightarrow>
               Inr (Element ''tr''
                      (''<td>'' @ escape n @ ''</td><td>'' @ escape s @ ''</td>''))))"

fun forEach_player :: "player list \<Rightarrow> run" where
  "forEach_player [] = ([], None)"
| "forEach_player (p # ps) =
     (case player_row p of
        Inl e \<Rightarrow> ([], Some e)
      | Inr tr \<Rightarrow>
          (case forEach_player ps of (ws, e) \<Rightarrow> (Append_player_row tr # ws, e)))"

text \<open>
  The function that \<^verbatim>\<open>update_info_page\<close> passes to \<^verbatim>\<open>get_server_info\<close>:
  \<^verbatim>\<open>
  data => {
      map_title.innerHTML = data.map.name
      server_name.innerHTML = data.servername
      players_table.innerHTML = ""
      update_background(data.map.image)
      data.players.forEach(player => { ... })
  }
  \<close>
  Reading \<^verbatim>\<open>data.map.name\<close> throws a \<^verbatim>\<open>TypeError\<close> when \<^verbatim>\<open>data.map\<close> is \<^verbatim>\<open>undefined\<close>;
  \<^verbatim>\<open>data.players.forEach(...)\<close> throws one when \<^verbatim>\<open>data.players\<close> is \<^verbatim>\<open>undefined\<close> or has
  no method \<^verbatim>\<open>forEach\<close>.
\<close>

definition render_callback :: "string \<Rightarrow> response \<Rightarrow> run" where
  "render_callback static_dir data =
     (case map_data data of
        None \<Rightarrow> ([], Some TypeError)
      | Some m \<Rightarrow>
          (let ws = [Set_map_title (to_string (map_info.name m)),
                     Set_server_name (to_string (servername data)),
                     Clear_players_table]
                    @ update_background static_dir (image m)
           in case players data of
                Sequence ps \<Rightarrow> (case forEach_player ps of (rows, e) \<Rightarrow> (ws @ rows, e))
              | _ \<Rightarrow> (ws, Some TypeError)))"

text \<open>
  \<^verbatim>\<open>
  function get_server_info(callback) {
      fetch(api_url + "/server_info")
          .then(response => { return response.json() })
          .then(callback)
  }
  \<close>
  What the network answers is the outcome of the fetch: the promise of \<^verbatim>\<open>fetch\<close> is
  rejected with a \<^verbatim>\<open>TypeError\<close> when no response arrives, and is fulfilled by a response
  of any status.
  \<^verbatim>\<open>response.json()\<close> is rejected with a \<^verbatim>\<open>SyntaxError\<close> when the body is not JSON (body
  \<open>None\<close>). The status is carried by the outcome and the script does not read it. A
  rejection is handled nowhere in the script: it ends the chain.
\<close>

datatype fetch_outcome =
    Network_failure
  | Http_response nat "response option"

definition request_url :: "string \<Rightarrow> string" where
  "request_url api_url = api_url @ ''/server_info''"

definition get_server_info :: "(response \<Rightarrow> run) \<Rightarrow> fetch_outcome \<Rightarrow> run" where
  "get_server_info callback outcome =
     (case outcome of
        Network_failure \<Rightarrow> ([], Some TypeError)
      | Http_response status body \<Rightarrow>
          (case body of
             None \<Rightarrow> ([], Some SyntaxError)
           | Some data \<Rightarrow> callback data))"

definition update_info_page :: "string \<Rightarrow> fetch_outcome \<Rightarrow> run" where
  "update_info_page static_dir outcome = get_server_info (render_callback static_dir) outcome"

text \<open>The document after one refresh whose fetch had the given outcome.\<close>

definition refresh :: "(string \<Rightarrow> bool) \<Rightarrow> string \<Rightarrow> fetch_outcome \<Rightarrow> dom \<Rightarrow> dom" where
  "refresh css static_dir outcome d = page_after css (update_info_page static_dir outcome) d"

section \<open>Calls and responses in the event loop\<close>

text \<open>
  The browser runs one task at a time. A call of \<^verbatim>\<open>update_info_page\<close> sends the request
  and returns; the rest of the chain runs in a later task, when the fetch of that
  request settles. The browser state is the document, the requests in flight (number
  and URL), the count of requests sent so far, and the rejections nobody handled. The
  parameter \<open>css\<close> is the CSS parser of the browser, as in \<open>perform\<close>.
\<close>

record config =
  api_url :: string
  static_dir :: string

record browser =
  page :: dom
  in_flight :: "(nat \<times> string) list"
  sent :: nat
  unhandled :: "js_error list"

datatype event =
    Call_update_info_page
  | Settle nat fetch_outcome

definition step :: "(string \<Rightarrow> bool) \<Rightarrow> config \<Rightarrow> browser \<Rightarrow> event \<Rightarrow> browser" where
  "step css cfg b ev =
     (case ev of
        Call_update_info_page \<Rightarrow>
          b\<lparr>in_flight := in_flight b @ [(sent b, request_url (api_url cfg))],
            sent := Suc (sent b)\<rparr>
      | Settle i outcome \<Rightarrow>
          (if i \<in> fst ` set (in_flight b)
           then (let r = update_info_page (static_dir cfg) outcome
                 in b\<lparr>page := page_after css r (page b),
                      in_flight := filter (\<lambda>q. fst q \<noteq> i) (in_flight b),
                      unhandled := unhandled b @ (case snd r of None \<Rightarrow> [] | Some e \<Rightarrow> [e])\<rparr>)
           else b))"

definition run_events :: "(string \<Rightarrow> bool) \<Rightarrow> config \<Rightarrow> browser \<Rightarrow> event list \<Rightarrow> browser" where
  "run_events css cfg b evs = foldl (step css cfg) b evs"

section \<open>Reading the cells of a row\<close>

text \<open>
  The markup of a row is read as a sequence of cells \<^verbatim>\<open><td>text</td>\<close>, where the text
  of a cell runs up to the next \<^verbatim>\<open><\<close>. Markup of any other shape has no reading here.
\<close>

function cells_of :: "string \<Rightarrow> string list option" where
  "cells_of s =
     (if s = [] then Some []
      else if prefix ''<td>'' s \<and> prefix ''</td>'' (dropWhile (\<lambda>c. c \<noteq> CHR ''<'') (drop 4 s))
      then map_option
             ((#) (takeWhile (\<lambda>c. c \<noteq> CHR ''<'') (drop 4 s)))
             (cells_of (drop 5 (dropWhile (\<lambda>c. c \<noteq> CHR ''<'') (drop 4 s))))
      else None)"
  by pat_completeness auto
termination
proof (relation "measure length")
  show "wf (measure length)" by simp
next
  fix s :: string
  assume "s \<noteq> []"
  have "length (dropWhile (\<lambda>c. c \<noteq> CHR ''<'') (drop 4 s)) \<le> length (drop 4 s)"
    by (rule length_dropWhile_le)
  moreover assume "prefix ''<td>'' s \<and> prefix ''</td>'' (dropWhile (\<lambda>c. c \<noteq> CHR ''<'') (drop 4 s))"
  then have "4 \<le> length s"
    by (auto simp: prefix_def)
  ultimately show "(drop 5 (dropWhile (\<lambda>c. c \<noteq> CHR ''<'') (drop 4 s)), s) \<in> measure length"
    by simp
qed

declare cells_of.simps [simp del]

text \<open>
  A text has no unescaped occurrence of the four characters when \<^verbatim>\<open><\<close>, \<^verbatim>\<open>>\<close> and the
  double quote do not occur in it and every \<^verbatim>\<open>&\<close> starts one of the four character
  references.
\<close>

fun no_unescaped :: "string \<Rightarrow> bool" where
  "no_unescaped [] = True"
| "no_unescaped (c # cs) =
     (if c = CHR ''&''
      then (prefix ''amp;'' cs \<or> prefix ''lt;'' cs \<or> prefix ''gt;'' cs \<or> prefix ''quot;'' cs)
           \<and> no_unescaped cs
      else c \<noteq> CHR ''<'' \<and> c \<noteq> CHR ''>'' \<and> c \<noteq> dquote \<and> no_unescaped cs)"

section \<open>Example inputs\<close>

text \<open>
  The response of the spec's end-to-end example, a page as an earlier refresh may have
  left it, and responses that differ from the example in one property.
\<close>

definition example_response :: response where
  "example_response =
     \<lparr>servername = Some ''Test Server'',
      map_data = Some \<lparr>map_info.name = Some ''St Mere Eglise'',
                       image = Some ''stmereeglise.jpg''\<rparr>,
      players = Sequence [\<lparr>player.name = Some ''A<b>'', skin = Some ''us''\<rparr>]\<rparr>"

definition example_page :: dom where
  "example_page =
     \<lparr>map_title = ''Old Map'',
      server_name = ''Old Server'',
      players_table = [Element ''tr'' ''<td>Z</td><td>de</td>''],
      background_image = [],
      rest = (\<lambda>place. [])(''footer.innerHTML'' := ''About'')\<rparr>"

definition no_image_response :: response where
  "no_image_response =
     \<lparr>servername = Some ''Other Server'',
      map_data = Some \<lparr>map_info.name = Some ''Carentan'', image = Some ''None''\<rparr>,
      players = Sequence []\<rparr>"

definition quote_image_response :: response where
  "quote_image_response =
     \<lparr>servername = Some ''Other Server'',
      map_data = Some \<lparr>map_info.name = Some ''Carentan'', image = Some ''a'b.png''\<rparr>,
      players = Sequence []\<rparr>"

definition no_map_response :: response where
  "no_map_response = example_response\<lparr>map_data := None\<rparr>"

definition no_players_response :: response where
  "no_players_response = example_response\<lparr>players := Missing\<rparr>"

definition example_config :: config where
  "example_config = \<lparr>api_url = ''/api'', static_dir = ''/s''\<rparr>"

definition example_browser :: browser where
  "example_browser = \<lparr>page = example_page, in_flight = [], sent = 0, unhandled = []\<rparr>"

definition markup_response :: response where
  "markup_response =
     \<lparr>servername = Some ''<i>Srv</i>'',
      map_data = Some \<lparr>map_info.name = Some ''<b>Map</b>'', image = Some ''m.png''\<rparr>,
      players = Sequence [\<lparr>player.name = Some [CHR ''<'', CHR ''&'', dquote, CHR ''>''],
                           skin = Some ''a&amp;b''\<rparr>]\<rparr>"

section \<open>Facts about the escaping helper and the cells of a row\<close>

lemma escape_char_no_lt: "CHR ''<'' \<notin> set (escape_char c)"
  by (simp add: escape_char_def dquote_def)

lemma escape_no_lt: "CHR ''<'' \<notin> set (escape s)"
  by (induction s) (simp_all add: escape_def escape_char_no_lt)

lemma escape_Nil: "escape [] = []"
  by (simp add: escape_def)

lemma escape_Cons: "escape (c # cs) = escape_char c @ escape cs"
  by (simp add: escape_def)

lemma no_unescaped_escape: "no_unescaped (escape s)"
  by (induction s) (simp_all add: escape_Nil escape_Cons escape_char_def dquote_def)

lemma cells_of_Nil: "cells_of [] = Some []"
  by (simp add: cells_of.simps)

lemma takeWhile_until: "x \<notin> set t \<Longrightarrow> takeWhile (\<lambda>c. c \<noteq> x) (t @ x # r) = t"
  by (induction t) auto

lemma dropWhile_until: "x \<notin> set t \<Longrightarrow> dropWhile (\<lambda>c. c \<noteq> x) (t @ x # r) = x # r"
  by (induction t) auto

lemma cells_of_cell:
  assumes "CHR ''<'' \<notin> set t"
  shows "cells_of (''<td>'' @ t @ ''</td>'' @ r) = map_option ((#) t) (cells_of r)"
  by (subst cells_of.simps) (simp add: takeWhile_until [OF assms] dropWhile_until [OF assms])

lemma cells_of_row:
  "cells_of (''<td>'' @ escape n @ ''</td><td>'' @ escape s @ ''</td>'') = Some [escape n, escape s]"
proof -
  have "cells_of (''<td>'' @ escape n @ ''</td>'' @ (''<td>'' @ escape s @ ''</td>'' @ []))
        = Some [escape n, escape s]"
    by (simp only: cells_of_cell [OF escape_no_lt] cells_of_Nil option.map list.simps)
  then show ?thesis by simp
qed

lemma escape_example: "escape ''A<b>'' = ''A&lt;b&gt;''" "escape ''us'' = ''us''"
  by (simp_all add: escape_def escape_char_def dquote_def)

section \<open>Facts about the writes of the script\<close>

lemma perform_all_Nil: "perform_all css d [] = d"
  by (simp add: perform_all_def)

lemma perform_all_Cons: "perform_all css d (w # ws) = perform_all css (perform css d w) ws"
  by (simp add: perform_all_def)

lemma perform_all_append: "perform_all css d (ws @ ws') = perform_all css (perform_all css d ws) ws'"
  by (simp add: perform_all_def)

lemma perform_all_rows:
  "perform_all css d (map Append_player_row rows) = d\<lparr>players_table := players_table d @ rows\<rparr>"
  by (induction rows arbitrary: d) (simp_all add: perform_all_Nil perform_all_Cons)

lemma perform_rest: "one_of_four w \<Longrightarrow> rest (perform css d w) = rest d"
  by (cases w) simp_all

lemma perform_all_rest: "list_all one_of_four ws \<Longrightarrow> rest (perform_all css d ws) = rest d"
  by (induction ws arbitrary: d) (simp_all add: perform_all_Nil perform_all_Cons perform_rest)

lemma perform_all_frame:
  assumes "list_all one_of_four ws"
  shows "perform_all css d ws =
     d\<lparr>map_title := map_title (perform_all css d ws),
       server_name := server_name (perform_all css d ws),
       players_table := players_table (perform_all css d ws),
       background_image := background_image (perform_all css d ws)\<rparr>"
  by (rule dom.equality) (simp_all add: perform_all_rest [OF assms])

text \<open>The quoted URLs, and the two values of the examples.\<close>

lemma quoted_url_plain:
  assumes "list_all plain_url_char x"
  shows "quoted_url (''url('' @ squote @ x @ squote @ '')'')"
  using assms by (simp add: quoted_url_def squote_def)

lemma quoted_url_examples:
  "quoted_url ''url('/s/img/stmereeglise.jpg')''"
  "quoted_url ''url('/static/img/town.jpg')''"
  "\<not> quoted_url ''url('/static/img/a'b.png')''"
  "\<not> quoted_url ''url('/s/img/a'b.png')''"
  by (simp_all add: quoted_url_def squote_def plain_url_char_def)

text \<open>The URL that \<open>update_background\<close> builds, and when it builds one.\<close>

lemma update_background_cases:
  "update_background sd img =
     (case img of
        None \<Rightarrow> []
      | Some s \<Rightarrow> if s = [] \<or> s = ''None'' then []
                 else [Set_background_image (''url('' @ squote @ sd @ ''/img/'' @ s @ squote @ '')'')])"
  by (simp add: update_background_def truthy_def to_string_def split: option.split)

lemma perform_all_background:
  "perform_all css d (update_background sd img) =
     d\<lparr>background_image := background_image (perform_all css d (update_background sd img))\<rparr>"
  by (simp add: update_background_cases perform_all_Nil perform_all_Cons split: option.split)

lemma update_background_four: "list_all one_of_four (update_background sd img)"
  by (simp add: update_background_cases split: option.split)

lemma player_row_Inr:
  "player_row p = Inr tr \<Longrightarrow>
   \<exists>n s. player.name p = Some n \<and> skin p = Some s \<and>
         tr = Element ''tr'' (''<td>'' @ escape n @ ''</td><td>'' @ escape s @ ''</td>'')"
  by (auto simp: player_row_def split: option.splits)

lemma forEach_player_valid:
  "list_all valid_player ps \<Longrightarrow>
   \<exists>rows. forEach_player ps = (map Append_player_row rows, None) \<and>
          list_all2 (\<lambda>p tr. player_row p = Inr tr) ps rows"
proof (induction ps)
  case Nil
  then show ?case by simp
next
  case (Cons p ps)
  then obtain rows where r: "forEach_player ps = (map Append_player_row rows, None)"
      "list_all2 (\<lambda>p tr. player_row p = Inr tr) ps rows"
    by auto
  from Cons.prems obtain n s where "player.name p = Some n" "skin p = Some s"
    by (auto simp: valid_player_def)
  then have "player_row p = Inr (Element ''tr'' (''<td>'' @ escape n @ ''</td><td>'' @ escape s @ ''</td>''))"
    by (simp add: player_row_def)
  with r show ?case
    by (intro exI [of _ "Element ''tr'' (''<td>'' @ escape n @ ''</td><td>'' @ escape s @ ''</td>'') # rows"]) simp
qed

lemma forEach_player_shape:
  "forEach_player ps = (ws, e) \<Longrightarrow> \<exists>rows. ws = map Append_player_row rows \<and> length rows \<le> length ps"
proof (induction ps arbitrary: ws e)
  case Nil
  then show ?case by simp
next
  case (Cons p ps)
  obtain ws' e' where f: "forEach_player ps = (ws', e')"
    by (cases "forEach_player ps")
  from Cons.IH [OF f] obtain rows where r: "ws' = map Append_player_row rows" "length rows \<le> length ps"
    by auto
  show ?case
  proof (cases "player_row p")
    case (Inl err)
    with Cons.prems show ?thesis by simp
  next
    case (Inr tr)
    with Cons.prems f r have "ws = map Append_player_row (tr # rows)"
      by simp
    with r show ?thesis
      by (intro exI [of _ "tr # rows"]) simp
  qed
qed

lemma forEach_player_four: "list_all one_of_four (fst (forEach_player ps))"
proof -
  obtain ws e where f: "forEach_player ps = (ws, e)"
    by (cases "forEach_player ps")
  from forEach_player_shape [OF f] obtain rows where "ws = map Append_player_row rows"
    by blast
  with f show ?thesis
    by (simp add: list_all_iff)
qed

text \<open>Every write of the script goes to one of the four places.\<close>

lemma render_callback_four: "list_all one_of_four (fst (render_callback sd data))"
proof (cases "map_data data")
  case None
  then show ?thesis by (simp add: render_callback_def)
next
  case (Some m)
  show ?thesis
  proof (cases "players data")
    case (Sequence ps)
    obtain ws e where f: "forEach_player ps = (ws, e)"
      by (cases "forEach_player ps")
    with forEach_player_four [of ps] have "list_all one_of_four ws"
      by simp
    with f show ?thesis
      by (simp add: render_callback_def Some Sequence update_background_four)
  qed (simp_all add: render_callback_def Some update_background_four)
qed

lemma update_info_page_four: "list_all one_of_four (fst (update_info_page sd outcome))"
proof (cases outcome)
  case Network_failure
  then show ?thesis by (simp add: update_info_page_def get_server_info_def)
next
  case (Http_response st body)
  then show ?thesis
    by (cases body) (simp_all add: update_info_page_def get_server_info_def render_callback_four)
qed

lemma refresh_rest: "rest (refresh css sd outcome d) = rest d"
  by (simp add: refresh_def page_after_def perform_all_rest [OF update_info_page_four])

text \<open>The writes of a refresh whose response is valid, and the page they leave.\<close>

lemma update_info_page_valid:
  assumes "valid_response data" and "players data = Sequence ps"
  shows "\<exists>m rows.
           map_data data = Some m \<and>
           list_all2 (\<lambda>p tr. player_row p = Inr tr) ps rows \<and>
           update_info_page sd (Http_response st (Some data)) =
             ([Set_map_title (to_string (map_info.name m)),
               Set_server_name (to_string (servername data)),
               Clear_players_table]
              @ update_background sd (image m) @ map Append_player_row rows, None)"
proof -
  from assms obtain m where mp: "map_data data = Some m" "list_all valid_player ps"
    by (auto simp: valid_response_def split: option.splits)
  from forEach_player_valid [OF mp(2)] obtain rows where
    rows: "forEach_player ps = (map Append_player_row rows, None)"
      "list_all2 (\<lambda>p tr. player_row p = Inr tr) ps rows"
    by auto
  have "update_info_page sd (Http_response st (Some data)) =
          ([Set_map_title (to_string (map_info.name m)),
            Set_server_name (to_string (servername data)),
            Clear_players_table]
           @ update_background sd (image m) @ map Append_player_row rows, None)"
    by (simp add: update_info_page_def get_server_info_def render_callback_def mp assms(2) rows)
  with mp rows show ?thesis by blast
qed

lemma update_info_page_shape:
  assumes "map_data data = Some m"
  shows "\<exists>rows. fst (update_info_page sd (Http_response st (Some data))) =
           [Set_map_title (to_string (map_info.name m)),
            Set_server_name (to_string (servername data)),
            Clear_players_table]
           @ update_background sd (image m) @ map Append_player_row rows"
proof (cases "players data")
  case (Sequence ps)
  obtain ws e where f: "forEach_player ps = (ws, e)"
    by (cases "forEach_player ps")
  from forEach_player_shape [OF f] obtain rows where "ws = map Append_player_row rows"
    by blast
  with f have "fst (update_info_page sd (Http_response st (Some data))) =
           [Set_map_title (to_string (map_info.name m)),
            Set_server_name (to_string (servername data)),
            Clear_players_table]
           @ update_background sd (image m) @ map Append_player_row rows"
    by (simp add: update_info_page_def get_server_info_def render_callback_def assms Sequence)
  then show ?thesis by blast
qed (simp_all add: update_info_page_def get_server_info_def render_callback_def assms)

lemma update_info_page_completes:
  assumes "snd (update_info_page sd (Http_response st (Some data))) = None"
  shows "map_data data \<noteq> None"
  using assms
  by (cases "map_data data") (simp_all add: update_info_page_def get_server_info_def render_callback_def)

lemma get_server_info_failure:
  "get_server_info callback Network_failure = ([], Some TypeError)"
  "get_server_info callback (Http_response st None) = ([], Some SyntaxError)"
  by (simp_all add: get_server_info_def)

lemma refresh_writes:
  assumes "update_info_page sd outcome =
             ([Set_map_title t, Set_server_name s, Clear_players_table]
              @ update_background sd img @ map Append_player_row rows, e)"
  shows "refresh css sd outcome d =
           (perform_all css (d\<lparr>map_title := t, server_name := s, players_table := []\<rparr>)
              (update_background sd img))\<lparr>players_table := rows\<rparr>"
proof -
  have bg: "players_table (perform_all css d' (update_background sd img)) = players_table d'" for d' :: "dom"
    by (simp add: update_background_cases perform_all_Nil perform_all_Cons split: option.split)
  show ?thesis
    by (simp add: refresh_def page_after_def assms perform_all_Cons perform_all_append
        perform_all_rows bg)
qed

lemma refresh_shape:
  assumes "fst (update_info_page sd outcome) =
             [Set_map_title t, Set_server_name s, Clear_players_table]
             @ update_background sd img @ map Append_player_row rows"
  shows "refresh css sd outcome d =
           (perform_all css (d\<lparr>map_title := t, server_name := s, players_table := []\<rparr>)
              (update_background sd img))\<lparr>players_table := rows\<rparr>"
proof (rule refresh_writes [where e = "snd (update_info_page sd outcome)"])
  show "update_info_page sd outcome =
          ([Set_map_title t, Set_server_name s, Clear_players_table]
           @ update_background sd img @ map Append_player_row rows, snd (update_info_page sd outcome))"
    using assms by (cases "update_info_page sd outcome") simp
qed

lemma valid_rows:
  assumes "valid_response data" and "players data = Sequence ps"
  shows "\<exists>rows. players_table (refresh css sd (Http_response st (Some data)) d) = rows \<and>
           snd (update_info_page sd (Http_response st (Some data))) = None \<and>
           list_all2 (\<lambda>p tr. player_row p = Inr tr) ps rows"
proof -
  from update_info_page_valid [OF assms, of sd st] obtain m :: map_info and rows where
    rows: "list_all2 (\<lambda>p tr. player_row p = Inr tr) ps rows"
    and w: "update_info_page sd (Http_response st (Some data)) =
          ([Set_map_title (to_string (map_info.name m)),
            Set_server_name (to_string (servername data)),
            Clear_players_table]
           @ update_background sd (image m) @ map Append_player_row rows, None)"
    by blast
  have "players_table (refresh css sd (Http_response st (Some data)) d) = rows"
    by (simp add: refresh_writes [OF w])
  with w rows show ?thesis by simp
qed

lemma refresh_valid_fields:
  assumes "valid_response data" and "map_data data = Some m"
  shows "\<exists>n s rows. \<forall>d' :: dom.
           refresh css sd (Http_response st (Some data)) d' =
             (perform_all css (d'\<lparr>map_title := n, server_name := s, players_table := []\<rparr>)
                (update_background sd (image m)))\<lparr>players_table := rows\<rparr>"
proof -
  from assms obtain ps where p: "players data = Sequence ps"
    by (auto simp: valid_response_def split: players_value.splits)
  from update_info_page_valid [OF assms(1) p, of sd st] assms(2)
  obtain rows where
    w: "update_info_page sd (Http_response st (Some data)) =
          ([Set_map_title (to_string (map_info.name m)),
            Set_server_name (to_string (servername data)),
            Clear_players_table]
           @ update_background sd (image m) @ map Append_player_row rows, None)"
    by auto
  have "\<forall>d' :: dom.
           refresh css sd (Http_response st (Some data)) d' =
             (perform_all css (d'\<lparr>map_title := to_string (map_info.name m),
                              server_name := to_string (servername data),
                              players_table := []\<rparr>)
                (update_background sd (image m)))\<lparr>players_table := rows\<rparr>"
    by (simp add: refresh_writes [OF w])
  then show ?thesis by blast
qed

section \<open>Facts about the event loop\<close>

lemma step_Call:
  "step css cfg b Call_update_info_page =
     b\<lparr>in_flight := in_flight b @ [(sent b, request_url (api_url cfg))], sent := Suc (sent b)\<rparr>"
  by (simp add: step_def)

lemma step_Settle:
  assumes "i \<in> fst ` set (in_flight b)"
  shows "step css cfg b (Settle i outcome) =
           b\<lparr>page := refresh css (static_dir cfg) outcome (page b),
             in_flight := filter (\<lambda>q. fst q \<noteq> i) (in_flight b),
             unhandled := unhandled b @
               (case snd (update_info_page (static_dir cfg) outcome) of
                  None \<Rightarrow> [] | Some e \<Rightarrow> [e])\<rparr>"
  using assms by (simp add: step_def refresh_def Let_def)

lemma stays_in_flight:
  assumes "i \<in> fst ` set (in_flight b)" and "\<forall>outcome. ev \<noteq> Settle i outcome"
  shows "i \<in> fst ` set (in_flight (step css cfg b ev))"
proof (cases ev)
  case Call_update_info_page
  with assms(1) show ?thesis
    by (auto simp: step_Call)
next
  case (Settle j outcome)
  with assms(2) have "j \<noteq> i" by auto
  show ?thesis
  proof (cases "j \<in> fst ` set (in_flight b)")
    case True
    have "in_flight (step css cfg b ev) = filter (\<lambda>q. fst q \<noteq> j) (in_flight b)"
      by (simp add: Settle step_Settle [OF True])
    with assms(1) \<open>j \<noteq> i\<close> show ?thesis
      by force
  next
    case False
    with assms(1) show ?thesis
      by (simp add: Settle step_def)
  qed
qed

lemma two_calls_two_responses:
  assumes "(i, j) = (sent b, Suc (sent b)) \<or> (i, j) = (Suc (sent b), sent b)"
  shows "page (run_events css cfg b
                 [Call_update_info_page, Call_update_info_page, Settle i o1, Settle j o2])
           = refresh css (static_dir cfg) o2 (refresh css (static_dir cfg) o1 (page b))"
proof -
  let ?b2 = "step css cfg (step css cfg b Call_update_info_page) Call_update_info_page"
  have fl: "in_flight ?b2 = in_flight b @ [(sent b, request_url (api_url cfg)),
                                            (Suc (sent b), request_url (api_url cfg))]"
    and pg: "page ?b2 = page b"
    by (simp_all add: step_Call)
  from assms have i: "i \<in> fst ` set (in_flight ?b2)" and j: "j \<in> fst ` set (in_flight ?b2)"
    and ij: "i \<noteq> j"
    by (auto simp: fl)
  let ?b3 = "step css cfg ?b2 (Settle i o1)"
  have p3: "page ?b3 = refresh css (static_dir cfg) o1 (page b)"
    and f3: "in_flight ?b3 = filter (\<lambda>q. fst q \<noteq> i) (in_flight ?b2)"
    by (simp_all add: step_Settle [OF i] pg)
  from j ij have j3: "j \<in> fst ` set (in_flight ?b3)"
    by (auto simp: f3)
  have "page (step css cfg ?b3 (Settle j o2)) = refresh css (static_dir cfg) o2 (page ?b3)"
    by (simp add: step_Settle [OF j3])
  then show ?thesis
    by (simp add: run_events_def p3)
qed

section \<open>Facts about the example inputs\<close>

lemma example_response_valid: "valid_response example_response"
  by (simp add: valid_response_def example_response_def valid_player_def)

lemma markup_response_valid: "valid_response markup_response"
  by (simp add: valid_response_def markup_response_def valid_player_def)

lemma refresh_example:
  "refresh quoted_url ''/s'' (Http_response 200 (Some example_response)) d =
     d\<lparr>map_title := ''St Mere Eglise'',
       server_name := ''Test Server'',
       players_table := [Element ''tr'' ''<td>A&lt;b&gt;</td><td>us</td>''],
       background_image := ''url('/s/img/stmereeglise.jpg')''\<rparr>"
  by (simp add: refresh_def page_after_def update_info_page_def get_server_info_def
      render_callback_def example_response_def player_row_def escape_example
      update_background_cases squote_def to_string_def perform_all_def quoted_url_examples)

lemma refresh_no_image:
  "refresh quoted_url ''/s'' (Http_response 200 (Some no_image_response)) d =
     d\<lparr>map_title := ''Carentan'', server_name := ''Other Server'', players_table := []\<rparr>"
  by (simp add: refresh_def page_after_def update_info_page_def get_server_info_def
      render_callback_def no_image_response_def update_background_cases to_string_def
      perform_all_def)

section \<open>The player table\<close>

text \<open>
  Claim C1. For every valid response with \<open>N\<close> players, a refresh whose fetch delivers
  it completes without an error, and afterwards \<^verbatim>\<open>players_table\<close> holds exactly \<open>N\<close>
  child rows, in the order of the players of the response; row \<open>k\<close> is a \<^verbatim>\<open>tr\<close>
  element with exactly two cells, whose contents are the escaped name and the escaped
  skin of player \<open>k\<close>. The rows that were in the table before are gone.
\<close>

theorem players_table_after_refresh:
  assumes "valid_response data" and "players data = Sequence ps"
  shows "snd (update_info_page sd (Http_response st (Some data))) = None \<and>
         length (players_table (refresh css sd (Http_response st (Some data)) d)) = length ps \<and>
         (\<forall>k<length ps. \<exists>n s.
            player.name (ps ! k) = Some n \<and> skin (ps ! k) = Some s \<and>
            tagName (players_table (refresh css sd (Http_response st (Some data)) d) ! k) = ''tr'' \<and>
            cells_of (innerHTML (players_table (refresh css sd (Http_response st (Some data)) d) ! k))
              = Some [escape n, escape s])"
proof -
  let ?rows = "players_table (refresh css sd (Http_response st (Some data)) d)"
  from valid_rows [OF assms, where sd = sd and st = st and d = d and css = css]
  have fin: "snd (update_info_page sd (Http_response st (Some data))) = None"
    and rows: "list_all2 (\<lambda>p tr. player_row p = Inr tr) ps ?rows"
    by auto
  have len: "length ?rows = length ps"
    using rows by (simp add: list_all2_lengthD)
  have "\<exists>n s. player.name (ps ! k) = Some n \<and> skin (ps ! k) = Some s \<and>
              tagName (?rows ! k) = ''tr'' \<and>
              cells_of (innerHTML (?rows ! k)) = Some [escape n, escape s]"
    if "k < length ps" for k
  proof -
    from rows that have "player_row (ps ! k) = Inr (?rows ! k)"
      by (rule list_all2_nthD)
    from player_row_Inr [OF this] obtain n s where
      ns: "player.name (ps ! k) = Some n" "skin (ps ! k) = Some s"
      and tr: "?rows ! k = Element ''tr'' (''<td>'' @ escape n @ ''</td><td>'' @ escape s @ ''</td>'')"
      by blast
    have "tagName (?rows ! k) = ''tr''"
      by (simp only: tr element.sel)
    moreover have "cells_of (innerHTML (?rows ! k)) = Some [escape n, escape s]"
      by (simp only: tr element.sel cells_of_row)
    ultimately show ?thesis
      using ns by blast
  qed
  with fin len show ?thesis by blast
qed

theorem players_table_after_refresh_witness:
  "valid_response example_response \<and>
   players example_response = Sequence [\<lparr>player.name = Some ''A<b>'', skin = Some ''us''\<rparr>] \<and>
   length (players_table (refresh quoted_url ''/s'' (Http_response 200 (Some example_response)) example_page)) = 1 \<and>
   tagName (players_table (refresh quoted_url ''/s'' (Http_response 200 (Some example_response)) example_page) ! 0) = ''tr'' \<and>
   cells_of (innerHTML (players_table (refresh quoted_url ''/s'' (Http_response 200 (Some example_response)) example_page) ! 0))
     = Some [''A&lt;b&gt;'', ''us'']"
proof -
  have p: "players example_response = Sequence [\<lparr>player.name = Some ''A<b>'', skin = Some ''us''\<rparr>]"
    by (simp add: example_response_def)
  from players_table_after_refresh [OF example_response_valid p,
      where css = quoted_url and sd = "''/s''" and st = 200 and d = example_page]
  show ?thesis
    using example_response_valid p by (simp add: escape_example)
qed

text \<open>
  Claim C3. Two refreshes in succession with the same valid response leave the same rows
  in \<^verbatim>\<open>players_table\<close> as one refresh does: as many rows as the response has players,
  not twice as many. The whole document is the same after the second refresh as after the
  first.
\<close>

theorem refresh_twice_same_rows:
  assumes "valid_response data" and "players data = Sequence ps"
  shows "players_table (refresh css sd (Http_response st (Some data))
                          (refresh css sd (Http_response st (Some data)) d))
           = players_table (refresh css sd (Http_response st (Some data)) d) \<and>
         length (players_table (refresh css sd (Http_response st (Some data))
                                  (refresh css sd (Http_response st (Some data)) d)))
           = length ps \<and>
         refresh css sd (Http_response st (Some data)) (refresh css sd (Http_response st (Some data)) d)
           = refresh css sd (Http_response st (Some data)) d"
proof -
  from update_info_page_valid [OF assms, of sd st] obtain m :: map_info and rows where
    rows: "list_all2 (\<lambda>p tr. player_row p = Inr tr) ps rows"
    and w: "update_info_page sd (Http_response st (Some data)) =
          ([Set_map_title (to_string (map_info.name m)),
            Set_server_name (to_string (servername data)),
            Clear_players_table]
           @ update_background sd (image m) @ map Append_player_row rows, None)"
    by blast
  have idem: "refresh css sd (Http_response st (Some data)) (refresh css sd (Http_response st (Some data)) d)
           = refresh css sd (Http_response st (Some data)) d"
    by (simp add: refresh_writes [OF w] update_background_cases perform_all_Nil perform_all_Cons
        split: option.split)
  have "players_table (refresh css sd (Http_response st (Some data)) d) = rows"
    by (simp add: refresh_writes [OF w])
  with rows have "length (players_table (refresh css sd (Http_response st (Some data)) d)) = length ps"
    by (simp add: list_all2_lengthD)
  with idem show ?thesis by simp
qed

theorem refresh_twice_same_rows_witness:
  "valid_response example_response \<and>
   players_table (refresh quoted_url ''/s'' (Http_response 200 (Some example_response))
                    (refresh quoted_url ''/s'' (Http_response 200 (Some example_response)) example_page))
     = players_table (refresh quoted_url ''/s'' (Http_response 200 (Some example_response)) example_page) \<and>
   length (players_table (refresh quoted_url ''/s'' (Http_response 200 (Some example_response))
                    (refresh quoted_url ''/s'' (Http_response 200 (Some example_response)) example_page)))
     = 1"
proof -
  have p: "players example_response = Sequence [\<lparr>player.name = Some ''A<b>'', skin = Some ''us''\<rparr>]"
    by (simp add: example_response_def)
  note t = refresh_twice_same_rows [OF example_response_valid p,
      where css = quoted_url and sd = "''/s''" and st = 200 and d = example_page]
  from t have same: "players_table (refresh quoted_url ''/s'' (Http_response 200 (Some example_response))
                    (refresh quoted_url ''/s'' (Http_response 200 (Some example_response)) example_page))
     = players_table (refresh quoted_url ''/s'' (Http_response 200 (Some example_response)) example_page)"
    by (rule conjunct1)
  from t [THEN conjunct2, THEN conjunct1]
  have "length (players_table (refresh quoted_url ''/s'' (Http_response 200 (Some example_response))
                    (refresh quoted_url ''/s'' (Http_response 200 (Some example_response)) example_page)))
     = 1"
    by simp
  with same example_response_valid show ?thesis
    by blast
qed

text \<open>
  Claim C4. After a refresh with a valid response, the row of every player has two cells,
  and neither cell has an unescaped occurrence of \<^verbatim>\<open><\<close>, \<^verbatim>\<open>>\<close>, \<^verbatim>\<open>&\<close> or the double
  quote, whatever characters the name and the skin of the player contain.
\<close>

theorem player_cells_escaped:
  assumes "valid_response data" and "players data = Sequence ps"
  shows "\<forall>k<length ps. \<exists>c1 c2.
           cells_of (innerHTML (players_table (refresh css sd (Http_response st (Some data)) d) ! k))
             = Some [c1, c2] \<and>
           no_unescaped c1 \<and> no_unescaped c2"
proof (intro allI impI)
  fix k assume k: "k < length ps"
  let ?rows = "players_table (refresh css sd (Http_response st (Some data)) d)"
  from valid_rows [OF assms, where sd = sd and st = st and d = d and css = css]
  have "list_all2 (\<lambda>p tr. player_row p = Inr tr) ps ?rows"
    by auto
  from this k have "player_row (ps ! k) = Inr (?rows ! k)"
    by (rule list_all2_nthD)
  from player_row_Inr [OF this] obtain n s where
    tr: "?rows ! k = Element ''tr'' (''<td>'' @ escape n @ ''</td><td>'' @ escape s @ ''</td>'')"
    by blast
  have "cells_of (innerHTML (?rows ! k)) = Some [escape n, escape s]"
    by (simp only: tr element.sel cells_of_row)
  then show "\<exists>c1 c2. cells_of (innerHTML (?rows ! k)) = Some [c1, c2] \<and>
               no_unescaped c1 \<and> no_unescaped c2"
    using no_unescaped_escape by blast
qed

theorem player_cells_escaped_witness:
  "valid_response markup_response \<and>
   cells_of (innerHTML (players_table (refresh quoted_url ''/s'' (Http_response 200 (Some markup_response)) example_page) ! 0))
     = Some [''&lt;&amp;&quot;&gt;'', ''a&amp;amp;b''] \<and>
   no_unescaped ''&lt;&amp;&quot;&gt;'' \<and> no_unescaped ''a&amp;amp;b''"
proof -
  have p: "players markup_response =
             Sequence [\<lparr>player.name = Some [CHR ''<'', CHR ''&'', dquote, CHR ''>''],
                        skin = Some ''a&amp;b''\<rparr>]"
    by (simp add: markup_response_def)
  have r: "players_table (refresh quoted_url ''/s'' (Http_response 200 (Some markup_response)) example_page) ! 0
           = Element ''tr'' ''<td>&lt;&amp;&quot;&gt;</td><td>a&amp;amp;b</td>''"
    by (simp add: refresh_def page_after_def update_info_page_def get_server_info_def
        render_callback_def markup_response_def player_row_def escape_def escape_char_def
        dquote_def perform_all_def update_background_def truthy_def to_string_def squote_def
        example_page_def)
  from player_cells_escaped [OF markup_response_valid p,
      where css = quoted_url and sd = "''/s''" and st = 200 and d = example_page]
  obtain c1 c2 where
    "cells_of (innerHTML (players_table (refresh quoted_url ''/s'' (Http_response 200 (Some markup_response)) example_page) ! 0))
       = Some [c1, c2]" "no_unescaped c1" "no_unescaped c2"
    by auto
  moreover have "cells_of ''<td>&lt;&amp;&quot;&gt;</td><td>a&amp;amp;b</td>''
                 = Some [''&lt;&amp;&quot;&gt;'', ''a&amp;amp;b'']"
    by (simp add: cells_of.simps)
  ultimately show ?thesis
    using markup_response_valid by (simp add: r)
qed

section \<open>The background image\<close>

text \<open>
  Claim C2 as stated has the background image set for every image identifier that is
  present, not empty and not \<^verbatim>\<open>"None"\<close>. For the identifier \<^verbatim>\<open>a'b.png\<close> the script assigns
  \<^verbatim>\<open>url('/static/img/a'b.png')\<close>: the quote inside ends the CSS string early, the value
  is not accepted and the background image stays as it was.
\<close>

theorem quote_in_image_counterexample:
  "update_background ''/static'' (Some ''a'b.png'')
     = [Set_background_image ''url('/static/img/a'b.png')''] \<and>
   perform_all quoted_url example_page (update_background ''/static'' (Some ''a'b.png''))
     = example_page \<and>
   background_image
     (perform_all quoted_url example_page (update_background ''/static'' (Some ''a'b.png'')))
     \<noteq> ''url('/static/img/a'b.png')''"
  by (simp add: update_background_cases squote_def perform_all_Nil perform_all_Cons
      quoted_url_examples example_page_def)

text \<open>
  Claim C2, amended. When the image identifier is a present, non-empty string other than
  \<^verbatim>\<open>"None"\<close>, \<open>update_background\<close> assigns \<^verbatim>\<open>url('{static_dir}/img/{image}')\<close> to the
  background image of the body: when the CSS parser of the browser accepts that string,
  the background image becomes it and nothing else changes; when the parser does not
  accept it, the document stays as it is. The assigned string is a quoted URL when
  \<^verbatim>\<open>static_dir\<close> and the identifier have no single quote, backslash or line break. When
  the identifier is \<^verbatim>\<open>"None"\<close>, absent or empty, \<open>update_background\<close> makes no write and
  the document stays as it is.
\<close>

theorem update_background_rule:
  "(img = Some s \<and> s \<noteq> [] \<and> s \<noteq> ''None'' \<longrightarrow>
      update_background sd img
        = [Set_background_image (''url('' @ squote @ sd @ ''/img/'' @ s @ squote @ '')'')] \<and>
      (css (''url('' @ squote @ sd @ ''/img/'' @ s @ squote @ '')'') \<longrightarrow>
         perform_all css d (update_background sd img) =
           d\<lparr>background_image := ''url('' @ squote @ sd @ ''/img/'' @ s @ squote @ '')''\<rparr>) \<and>
      (\<not> css (''url('' @ squote @ sd @ ''/img/'' @ s @ squote @ '')'') \<longrightarrow>
         perform_all css d (update_background sd img) = d) \<and>
      (list_all plain_url_char (sd @ ''/img/'' @ s) \<longrightarrow>
         quoted_url (''url('' @ squote @ sd @ ''/img/'' @ s @ squote @ '')''))) \<and>
   (img = Some ''None'' \<or> img = None \<or> img = Some [] \<longrightarrow>
      update_background sd img = [] \<and> perform_all css d (update_background sd img) = d)"
proof (rule conjI)
  have q: "quoted_url (''url('' @ squote @ sd @ ''/img/'' @ s @ squote @ '')'')"
    if "list_all plain_url_char (sd @ ''/img/'' @ s)"
    using quoted_url_plain [OF that] by simp
  show "img = Some s \<and> s \<noteq> [] \<and> s \<noteq> ''None'' \<longrightarrow>
      update_background sd img
        = [Set_background_image (''url('' @ squote @ sd @ ''/img/'' @ s @ squote @ '')'')] \<and>
      (css (''url('' @ squote @ sd @ ''/img/'' @ s @ squote @ '')'') \<longrightarrow>
         perform_all css d (update_background sd img) =
           d\<lparr>background_image := ''url('' @ squote @ sd @ ''/img/'' @ s @ squote @ '')''\<rparr>) \<and>
      (\<not> css (''url('' @ squote @ sd @ ''/img/'' @ s @ squote @ '')'') \<longrightarrow>
         perform_all css d (update_background sd img) = d) \<and>
      (list_all plain_url_char (sd @ ''/img/'' @ s) \<longrightarrow>
         quoted_url (''url('' @ squote @ sd @ ''/img/'' @ s @ squote @ '')''))"
    using q by (simp add: update_background_cases perform_all_Nil perform_all_Cons)
next
  have "update_background sd img = []"
    if "img = Some ''None'' \<or> img = None \<or> img = Some []"
    using that by (auto simp: update_background_cases)
  then show "img = Some ''None'' \<or> img = None \<or> img = Some [] \<longrightarrow>
          update_background sd img = [] \<and> perform_all css d (update_background sd img) = d"
    by (simp add: perform_all_Nil)
qed

theorem update_background_rule_witness:
  "perform_all quoted_url example_page (update_background ''/static'' (Some ''town.jpg'')) =
     example_page\<lparr>background_image := ''url('/static/img/town.jpg')''\<rparr> \<and>
   quoted_url ''url('/static/img/town.jpg')'' \<and>
   perform_all quoted_url example_page (update_background ''/s'' (Some ''a'b.png'')) = example_page \<and>
   perform_all quoted_url example_page (update_background ''/static'' (Some ''None'')) = example_page \<and>
   perform_all quoted_url example_page (update_background ''/static'' None) = example_page \<and>
   perform_all quoted_url example_page (update_background ''/static'' (Some [])) = example_page"
  using update_background_rule [where img = "Some ''town.jpg''" and s = "''town.jpg''"
      and d = example_page and sd = "''/static''" and css = quoted_url]
    update_background_rule [where img = "Some ''a'b.png''" and s = "''a'b.png''"
      and d = example_page and sd = "''/s''" and css = quoted_url]
    update_background_rule [where img = "Some ''None''" and s = "''None''"
      and d = example_page and sd = "''/static''" and css = quoted_url]
    update_background_rule [where img = None and s = "[]"
      and d = example_page and sd = "''/static''" and css = quoted_url]
    update_background_rule [where img = "Some []" and s = "[]"
      and d = example_page and sd = "''/static''" and css = quoted_url]
  by (simp add: squote_def perform_all_Nil perform_all_Cons quoted_url_examples)

section \<open>The map title and the server name\<close>

text \<open>
  Claim C6. Whenever a refresh completes without an error, it leaves the content of
  \<^verbatim>\<open>map_title\<close> equal to \<^verbatim>\<open>data.map.name\<close> and the content of \<^verbatim>\<open>server_name\<close> equal to
  \<^verbatim>\<open>data.servername\<close>, converted to strings as the assignment does: a name that is a
  string is stored as it is, with no escaping applied.
\<close>

theorem title_and_server_name_raw:
  assumes "snd (update_info_page sd (Http_response st (Some data))) = None"
  shows "\<exists>m. map_data data = Some m \<and>
           map_title (refresh css sd (Http_response st (Some data)) d) = to_string (map_info.name m) \<and>
           server_name (refresh css sd (Http_response st (Some data)) d) = to_string (servername data) \<and>
           (\<forall>n. map_info.name m = Some n \<longrightarrow>
              map_title (refresh css sd (Http_response st (Some data)) d) = n) \<and>
           (\<forall>s. servername data = Some s \<longrightarrow>
              server_name (refresh css sd (Http_response st (Some data)) d) = s)"
proof -
  from update_info_page_completes [OF assms] obtain m where m: "map_data data = Some m"
    by blast
  from update_info_page_shape [OF m, of sd st] obtain rows where
    w: "fst (update_info_page sd (Http_response st (Some data))) =
          [Set_map_title (to_string (map_info.name m)),
           Set_server_name (to_string (servername data)),
           Clear_players_table]
          @ update_background sd (image m) @ map Append_player_row rows"
    by blast
  have bg: "map_title (perform_all css d' (update_background sd (image m))) = map_title d'"
           "server_name (perform_all css d' (update_background sd (image m))) = server_name d'"
    for d' :: "dom"
    by (simp_all add: update_background_cases perform_all_Nil perform_all_Cons split: option.split)
  have t: "map_title (refresh css sd (Http_response st (Some data)) d) = to_string (map_info.name m)"
    and s: "server_name (refresh css sd (Http_response st (Some data)) d) = to_string (servername data)"
    by (simp_all add: refresh_shape [OF w] bg)
  from m t s show ?thesis
    by (simp add: to_string_def)
qed

theorem title_and_server_name_raw_witness:
  "snd (update_info_page ''/s'' (Http_response 200 (Some markup_response))) = None \<and>
   map_title (refresh quoted_url ''/s'' (Http_response 200 (Some markup_response)) example_page) = ''<b>Map</b>'' \<and>
   server_name (refresh quoted_url ''/s'' (Http_response 200 (Some markup_response)) example_page) = ''<i>Srv</i>''"
proof -
  have c: "snd (update_info_page ''/s'' (Http_response 200 (Some markup_response))) = None"
    by (simp add: update_info_page_def get_server_info_def render_callback_def
        markup_response_def player_row_def)
  from title_and_server_name_raw [OF c, where css = quoted_url and d = example_page] c
  show ?thesis
    by (auto simp: markup_response_def to_string_def)
qed

section \<open>The order of the writes\<close>

text \<open>
  Claim C5 as stated has the call of \<open>update_background\<close> as the last step, after the
  rows are appended. On the spec's example response the background is written fourth
  and the row is appended after it.
\<close>

theorem background_before_rows_counterexample:
  "fst (update_info_page ''/s'' (Http_response 200 (Some example_response))) =
     [Set_map_title ''St Mere Eglise'',
      Set_server_name ''Test Server'',
      Clear_players_table,
      Set_background_image ''url('/s/img/stmereeglise.jpg')'',
      Append_player_row (Element ''tr'' ''<td>A&lt;b&gt;</td><td>us</td>'')] \<and>
   last (fst (update_info_page ''/s'' (Http_response 200 (Some example_response))))
     \<noteq> Set_background_image ''url('/s/img/stmereeglise.jpg')''"
  by (simp add: update_info_page_def get_server_info_def render_callback_def
      example_response_def player_row_def escape_example update_background_cases squote_def
      to_string_def)

text \<open>
  Claim C5, amended. For a valid response the refresh makes its writes in this order: the
  content of \<^verbatim>\<open>map_title\<close>, the content of \<^verbatim>\<open>server_name\<close>, the clearing of
  \<^verbatim>\<open>players_table\<close>, the writes of \<open>update_background\<close> called with the image of the map,
  and only then one appended row per player, in the order of the players.
\<close>

theorem refresh_write_order:
  assumes "valid_response data" and "map_data data = Some m" and "players data = Sequence ps"
  shows "\<exists>rows. length rows = length ps \<and>
           list_all2 (\<lambda>p tr. player_row p = Inr tr) ps rows \<and>
           update_info_page sd (Http_response st (Some data)) =
             ([Set_map_title (to_string (map_info.name m)),
               Set_server_name (to_string (servername data)),
               Clear_players_table]
              @ update_background sd (image m)
              @ map Append_player_row rows, None)"
proof -
  from update_info_page_valid [OF assms(1,3), of sd st] assms(2)
  obtain rows where
    rows: "list_all2 (\<lambda>p tr. player_row p = Inr tr) ps rows"
    and w: "update_info_page sd (Http_response st (Some data)) =
          ([Set_map_title (to_string (map_info.name m)),
            Set_server_name (to_string (servername data)),
            Clear_players_table]
           @ update_background sd (image m) @ map Append_player_row rows, None)"
    by auto
  from rows have "length rows = length ps"
    by (simp add: list_all2_lengthD)
  with rows w show ?thesis by blast
qed

theorem refresh_write_order_witness:
  "valid_response example_response \<and>
   (\<exists>rows. length rows = 1 \<and>
      update_info_page ''/s'' (Http_response 200 (Some example_response)) =
        ([Set_map_title ''St Mere Eglise'', Set_server_name ''Test Server'', Clear_players_table]
         @ update_background ''/s'' (Some ''stmereeglise.jpg'')
         @ map Append_player_row rows, None))"
proof -
  have m: "map_data example_response =
             Some \<lparr>map_info.name = Some ''St Mere Eglise'', image = Some ''stmereeglise.jpg''\<rparr>"
    and p: "players example_response = Sequence [\<lparr>player.name = Some ''A<b>'', skin = Some ''us''\<rparr>]"
    and s: "servername example_response = Some ''Test Server''"
    by (simp_all add: example_response_def)
  from refresh_write_order [OF example_response_valid m p, where sd = "''/s''" and st = 200]
  obtain rows where "length rows = 1"
    "update_info_page ''/s'' (Http_response 200 (Some example_response)) =
        ([Set_map_title ''St Mere Eglise'', Set_server_name ''Test Server'', Clear_players_table]
         @ update_background ''/s'' (Some ''stmereeglise.jpg'')
         @ map Append_player_row rows, None)"
    by (auto simp: s to_string_def)
  with example_response_valid show ?thesis by blast
qed

section \<open>Fetches that fail\<close>

text \<open>
  Claim C7 as stated counts a response with a status outside 2xx among the failures after
  which nothing is updated. The script does not read the status: a response with status
  500 whose body is the example response is rendered, and no rejection is left unhandled.
\<close>

theorem non_2xx_response_rendered_counterexample:
  "page (run_events quoted_url example_config example_browser
           [Call_update_info_page, Settle 0 (Http_response 500 (Some example_response))])
     \<noteq> page example_browser \<and>
   map_title (page (run_events quoted_url example_config example_browser
           [Call_update_info_page, Settle 0 (Http_response 500 (Some example_response))]))
     = ''St Mere Eglise'' \<and>
   unhandled (run_events quoted_url example_config example_browser
           [Call_update_info_page, Settle 0 (Http_response 500 (Some example_response))]) = []"
  by (simp add: run_events_def step_def example_config_def example_browser_def
      update_info_page_def get_server_info_def render_callback_def example_response_def
      player_row_def page_after_def perform_all_def update_background_cases to_string_def
      example_page_def squote_def quoted_url_examples)

text \<open>
  Claim C7, amended. When the fetch of a request in flight is rejected (network failure) or
  the body of its response is not JSON, whatever the status, the callback is not run
  (the outcome of \<open>get_server_info\<close> is the same for every callback: no write, and the
  error), the document stays as it was, the error is added to the unhandled rejections,
  the request leaves the requests in flight and no new request is sent. Until its fetch
  settles, a request stays in flight whatever other event happens: nothing times it out.
  The status of a response is no failure to the script: a body that is JSON is passed to
  the callback at every status, and the writes, the error and the browser state after the
  response are the same at every status.
\<close>

theorem fetch_failure_no_update:
  "((outcome = Network_failure \<or> outcome = Http_response st None) \<and>
    i \<in> fst ` set (in_flight b) \<longrightarrow>
      get_server_info callback outcome =
        ([], Some (if outcome = Network_failure then TypeError else SyntaxError)) \<and>
      page (step css cfg b (Settle i outcome)) = page b \<and>
      sent (step css cfg b (Settle i outcome)) = sent b \<and>
      in_flight (step css cfg b (Settle i outcome)) = filter (\<lambda>q. fst q \<noteq> i) (in_flight b) \<and>
      unhandled (step css cfg b (Settle i outcome)) =
        unhandled b @ [if outcome = Network_failure then TypeError else SyntaxError]) \<and>
   (i \<in> fst ` set (in_flight b) \<and> (\<forall>outcome'. ev \<noteq> Settle i outcome') \<longrightarrow>
      i \<in> fst ` set (in_flight (step css cfg b ev))) \<and>
   get_server_info callback (Http_response st (Some data)) = callback data \<and>
   update_info_page sd (Http_response st body) = update_info_page sd (Http_response st' body) \<and>
   step css cfg b (Settle i (Http_response st body))
     = step css cfg b (Settle i (Http_response st' body))"
proof -
  have failure: "get_server_info callback outcome =
        ([], Some (if outcome = Network_failure then TypeError else SyntaxError)) \<and>
      page (step css cfg b (Settle i outcome)) = page b \<and>
      sent (step css cfg b (Settle i outcome)) = sent b \<and>
      in_flight (step css cfg b (Settle i outcome)) = filter (\<lambda>q. fst q \<noteq> i) (in_flight b) \<and>
      unhandled (step css cfg b (Settle i outcome)) =
        unhandled b @ [if outcome = Network_failure then TypeError else SyntaxError]"
    if o: "outcome = Network_failure \<or> outcome = Http_response st None"
      and i: "i \<in> fst ` set (in_flight b)"
    using o
    by (auto simp: step_Settle [OF i] get_server_info_failure refresh_def page_after_def
        update_info_page_def perform_all_Nil)
  have stays: "i \<in> fst ` set (in_flight (step css cfg b ev))"
    if "i \<in> fst ` set (in_flight b)" and "\<forall>outcome'. ev \<noteq> Settle i outcome'"
    using that by (rule stays_in_flight)
  have passed: "get_server_info callback (Http_response st (Some data)) = callback data"
    by (simp add: get_server_info_def)
  have status: "update_info_page sd' (Http_response st body) = update_info_page sd' (Http_response st' body)"
    for sd'
    by (simp add: update_info_page_def get_server_info_def)
  have "step css cfg b (Settle i (Http_response st body))
          = step css cfg b (Settle i (Http_response st' body))"
    by (simp add: step_def status)
  with failure stays passed status [of sd] show ?thesis
    by blast
qed

theorem fetch_failure_no_update_witness:
  "page (run_events quoted_url example_config example_browser
           [Call_update_info_page, Settle 0 Network_failure]) = example_page \<and>
   unhandled (run_events quoted_url example_config example_browser
           [Call_update_info_page, Settle 0 Network_failure]) = [TypeError] \<and>
   in_flight (run_events quoted_url example_config example_browser
           [Call_update_info_page, Settle 0 Network_failure]) = [] \<and>
   sent (run_events quoted_url example_config example_browser
           [Call_update_info_page, Settle 0 Network_failure]) = 1 \<and>
   page (run_events quoted_url example_config example_browser
           [Call_update_info_page, Settle 0 (Http_response 200 None)]) = example_page \<and>
   unhandled (run_events quoted_url example_config example_browser
           [Call_update_info_page, Settle 0 (Http_response 200 None)]) = [SyntaxError] \<and>
   0 \<in> fst ` set (in_flight (run_events quoted_url example_config example_browser
           [Call_update_info_page, Call_update_info_page])) \<and>
   get_server_info (render_callback ''/s'') (Http_response 404 (Some example_response))
     = render_callback ''/s'' example_response \<and>
   update_info_page ''/s'' (Http_response 200 (Some example_response))
     = update_info_page ''/s'' (Http_response 500 (Some example_response))"
proof -
  let ?b = "step quoted_url example_config example_browser Call_update_info_page"
  have i: "0 \<in> fst ` set (in_flight ?b)"
    by (simp add: step_Call example_browser_def)
  have b: "page ?b = example_page" "unhandled ?b = []" "in_flight ?b = [(0, ''/api/server_info'')]"
    "sent ?b = 1"
    by (simp_all add: step_Call example_browser_def example_config_def request_url_def)
  note n = fetch_failure_no_update [where outcome = Network_failure and st = 200 and i = 0
      and b = ?b and css = quoted_url and cfg = example_config
      and callback = "render_callback ''/s''" and ev = Call_update_info_page
      and data = example_response and sd = "''/s''" and body = "Some example_response"
      and st' = 500]
  note j = fetch_failure_no_update [where outcome = "Http_response 404 None" and st = 404
      and i = 0 and b = ?b and css = quoted_url and cfg = example_config
      and callback = "render_callback ''/s''" and ev = Call_update_info_page
      and data = example_response and sd = "''/s''" and body = "Some example_response"
      and st' = 500]
  have k: "page (step quoted_url example_config ?b (Settle 0 (Http_response 200 None))) = example_page"
      "unhandled (step quoted_url example_config ?b (Settle 0 (Http_response 200 None))) = [SyntaxError]"
    using fetch_failure_no_update [where outcome = "Http_response 200 None" and st = 200
      and i = 0 and b = ?b and css = quoted_url and cfg = example_config
      and callback = "render_callback ''/s''"] i
    by (simp_all add: b)
  from n j i have
    "page (step quoted_url example_config ?b (Settle 0 Network_failure)) = example_page"
    "unhandled (step quoted_url example_config ?b (Settle 0 Network_failure)) = [TypeError]"
    "in_flight (step quoted_url example_config ?b (Settle 0 Network_failure)) = []"
    "sent (step quoted_url example_config ?b (Settle 0 Network_failure)) = 1"
    "0 \<in> fst ` set (in_flight (step quoted_url example_config ?b Call_update_info_page))"
    "get_server_info (render_callback ''/s'') (Http_response 404 (Some example_response))
       = render_callback ''/s'' example_response"
    "update_info_page ''/s'' (Http_response 200 (Some example_response))
       = update_info_page ''/s'' (Http_response 500 (Some example_response))"
    by (simp_all add: b)
  with k show ?thesis
    by (simp add: run_events_def)
qed

section \<open>Overlapping refreshes\<close>

text \<open>
  Claim C8 as stated has the final document equal to the rendering of the response that
  arrived later. When the later response has the image \<^verbatim>\<open>"None"\<close>, the background
  image is the one of the earlier response, which the rendering of the later response
  alone does not have.
\<close>

theorem later_response_counterexample:
  "page (run_events quoted_url example_config example_browser
           [Call_update_info_page, Call_update_info_page,
            Settle 0 (Http_response 200 (Some example_response)),
            Settle 1 (Http_response 200 (Some no_image_response))])
     \<noteq> refresh quoted_url ''/s'' (Http_response 200 (Some no_image_response)) example_page \<and>
   background_image (page (run_events quoted_url example_config example_browser
           [Call_update_info_page, Call_update_info_page,
            Settle 0 (Http_response 200 (Some example_response)),
            Settle 1 (Http_response 200 (Some no_image_response))]))
     = ''url('/s/img/stmereeglise.jpg')'' \<and>
   background_image (refresh quoted_url ''/s'' (Http_response 200 (Some no_image_response)) example_page) = []"
proof -
  have "(0, 1) = (sent example_browser, Suc (sent example_browser)) \<or>
        (0, 1) = (Suc (sent example_browser), sent example_browser)"
    by (simp add: example_browser_def)
  from two_calls_two_responses [OF this, where cfg = example_config and css = quoted_url]
  have "page (run_events quoted_url example_config example_browser
           [Call_update_info_page, Call_update_info_page,
            Settle 0 (Http_response 200 (Some example_response)),
            Settle 1 (Http_response 200 (Some no_image_response))])
        = example_page\<lparr>map_title := ''Carentan'', server_name := ''Other Server'',
            players_table := [], background_image := ''url('/s/img/stmereeglise.jpg')''\<rparr>"
    by (simp add: example_config_def example_browser_def refresh_example refresh_no_image)
  then show ?thesis
    by (simp add: refresh_no_image example_page_def)
qed

text \<open>
  Claim C8, amended. Two calls of \<^verbatim>\<open>update_info_page\<close> are made before either response
  arrives, and then both responses arrive, the later one valid. Whichever of the two
  requests was sent first, the contents of \<^verbatim>\<open>map_title\<close> and \<^verbatim>\<open>server_name\<close> and the rows of
  \<^verbatim>\<open>players_table\<close> end as the later response alone would leave them, and the rest of the
  document is untouched. The background image ends as that of the later response when
  \<open>update_background\<close> assigns one for it and the CSS parser of the browser accepts the
  assigned value; otherwise it stays as the refresh of the earlier response left it.
\<close>

theorem later_response_wins:
  assumes "valid_response data" and "map_data data = Some m"
    and "(i, j) = (sent b, Suc (sent b)) \<or> (i, j) = (Suc (sent b), sent b)"
  shows "let later = Http_response st (Some data);
             final = page (run_events css cfg b
                       [Call_update_info_page, Call_update_info_page,
                        Settle i earlier, Settle j later]);
             alone = refresh css (static_dir cfg) later (page b);
             before = refresh css (static_dir cfg) earlier (page b)
         in map_title final = map_title alone \<and>
            server_name final = server_name alone \<and>
            players_table final = players_table alone \<and>
            rest final = rest alone \<and>
            (\<forall>u. update_background (static_dir cfg) (image m) = [Set_background_image u] \<and> css u
               \<longrightarrow> background_image final = u \<and> background_image alone = u) \<and>
            (update_background (static_dir cfg) (image m) = [] \<or>
             (\<exists>u. update_background (static_dir cfg) (image m) = [Set_background_image u] \<and> \<not> css u)
               \<longrightarrow> background_image final = background_image before)"
proof -
  let ?sd = "static_dir cfg"
  let ?later = "Http_response st (Some data)"
  let ?mid = "refresh css ?sd earlier (page b)"
  have final: "page (run_events css cfg b
                 [Call_update_info_page, Call_update_info_page, Settle i earlier, Settle j ?later])
               = refresh css ?sd ?later ?mid"
    by (rule two_calls_two_responses [OF assms(3)])
  from refresh_valid_fields [OF assms(1,2), where sd = ?sd and st = st and css = css]
  obtain n s rows where
    r: "\<And>d'. refresh css ?sd ?later d' =
          (perform_all css (d'\<lparr>map_title := n, server_name := s, players_table := []\<rparr>)
             (update_background ?sd (image m)))\<lparr>players_table := rows\<rparr>"
    by blast
  have rest_mid: "rest ?mid = rest (page b)"
    by (rule refresh_rest)
  have bg: "map_title (perform_all css d' (update_background ?sd (image m))) = map_title d'"
      "server_name (perform_all css d' (update_background ?sd (image m))) = server_name d'"
      "rest (perform_all css d' (update_background ?sd (image m))) = rest d'"
    for d'
    by (simp_all add: update_background_cases perform_all_Nil perform_all_Cons split: option.split)
  have written: "background_image (perform_all css d' (update_background ?sd (image m))) = u"
    if "update_background ?sd (image m) = [Set_background_image u]" and "css u" for d' u
    using that by (simp add: perform_all_Nil perform_all_Cons)
  have kept: "background_image (perform_all css d' (update_background ?sd (image m)))
                = background_image d'"
    if "update_background ?sd (image m) = [] \<or>
        (\<exists>u. update_background ?sd (image m) = [Set_background_image u] \<and> \<not> css u)" for d'
    using that by (auto simp: perform_all_Nil perform_all_Cons)
  show ?thesis
    unfolding Let_def final
    using written kept
    by (simp add: r bg rest_mid)
qed

theorem later_response_wins_witness:
  "valid_response example_response \<and>
   map_title (page (run_events quoted_url example_config example_browser
           [Call_update_info_page, Call_update_info_page,
            Settle 1 (Http_response 200 (Some no_image_response)),
            Settle 0 (Http_response 200 (Some example_response))]))
     = ''St Mere Eglise'' \<and>
   players_table (page (run_events quoted_url example_config example_browser
           [Call_update_info_page, Call_update_info_page,
            Settle 1 (Http_response 200 (Some no_image_response)),
            Settle 0 (Http_response 200 (Some example_response))]))
     = [Element ''tr'' ''<td>A&lt;b&gt;</td><td>us</td>''] \<and>
   background_image (page (run_events quoted_url example_config example_browser
           [Call_update_info_page, Call_update_info_page,
            Settle 1 (Http_response 200 (Some no_image_response)),
            Settle 0 (Http_response 200 (Some example_response))]))
     = ''url('/s/img/stmereeglise.jpg')'' \<and>
   valid_response quote_image_response \<and>
   background_image (page (run_events quoted_url example_config example_browser
           [Call_update_info_page, Call_update_info_page,
            Settle 0 (Http_response 200 (Some example_response)),
            Settle 1 (Http_response 200 (Some quote_image_response))]))
     = ''url('/s/img/stmereeglise.jpg')''"
proof -
  have m: "map_data example_response =
             Some \<lparr>map_info.name = Some ''St Mere Eglise'', image = Some ''stmereeglise.jpg''\<rparr>"
    by (simp add: example_response_def)
  have ij: "(1, 0) = (sent example_browser, Suc (sent example_browser)) \<or>
            (1, 0) = (Suc (sent example_browser), sent example_browser)"
    by (simp add: example_browser_def)
  have u: "update_background ''/s'' (Some ''stmereeglise.jpg'')
             = [Set_background_image ''url('/s/img/stmereeglise.jpg')'']"
    by (simp add: update_background_cases squote_def)
  note first = later_response_wins [OF example_response_valid m ij,
      where cfg = example_config and st = 200 and css = quoted_url
        and earlier = "Http_response 200 (Some no_image_response)"]
  have a: "map_title (page (run_events quoted_url example_config example_browser
           [Call_update_info_page, Call_update_info_page,
            Settle 1 (Http_response 200 (Some no_image_response)),
            Settle 0 (Http_response 200 (Some example_response))]))
     = ''St Mere Eglise''"
    and b: "players_table (page (run_events quoted_url example_config example_browser
           [Call_update_info_page, Call_update_info_page,
            Settle 1 (Http_response 200 (Some no_image_response)),
            Settle 0 (Http_response 200 (Some example_response))]))
     = [Element ''tr'' ''<td>A&lt;b&gt;</td><td>us</td>'']"
    and c: "background_image (page (run_events quoted_url example_config example_browser
           [Call_update_info_page, Call_update_info_page,
            Settle 1 (Http_response 200 (Some no_image_response)),
            Settle 0 (Http_response 200 (Some example_response))]))
     = ''url('/s/img/stmereeglise.jpg')''"
    using first
    by (simp_all add: Let_def example_config_def refresh_example u quoted_url_examples)
  have v: "valid_response quote_image_response"
    by (simp add: valid_response_def quote_image_response_def)
  have mq: "map_data quote_image_response =
             Some \<lparr>map_info.name = Some ''Carentan'', image = Some ''a'b.png''\<rparr>"
    by (simp add: quote_image_response_def)
  have ji: "(0, 1) = (sent example_browser, Suc (sent example_browser)) \<or>
            (0, 1) = (Suc (sent example_browser), sent example_browser)"
    by (simp add: example_browser_def)
  have uq: "update_background ''/s'' (Some ''a'b.png'')
             = [Set_background_image ''url('/s/img/a'b.png')'']"
    by (simp add: update_background_cases squote_def)
  note second = later_response_wins [OF v mq ji,
      where cfg = example_config and st = 200 and css = quoted_url
        and earlier = "Http_response 200 (Some example_response)"]
  have d: "background_image (page (run_events quoted_url example_config example_browser
           [Call_update_info_page, Call_update_info_page,
            Settle 0 (Http_response 200 (Some example_response)),
            Settle 1 (Http_response 200 (Some quote_image_response))]))
     = ''url('/s/img/stmereeglise.jpg')''"
    using second
    by (simp add: Let_def example_config_def refresh_example uq quoted_url_examples)
  from a b c d v example_response_valid show ?thesis
    by blast
qed

section \<open>What a refresh leaves alone\<close>

text \<open>
  Claim C9. Every write of a refresh, whatever the outcome of its fetch, and every write of
  \<open>update_background\<close> goes to one of four places: the content of \<^verbatim>\<open>map_title\<close>, the
  content of \<^verbatim>\<open>server_name\<close>, the children of \<^verbatim>\<open>players_table\<close> and the background image of
  the body. So the document after a refresh differs from the one before in at most these
  four places, and every place of the rest of the document holds what it held.
  \<open>update_background\<close> changes at most the background image.
\<close>

theorem refresh_frame:
  "list_all one_of_four (fst (update_info_page sd outcome)) \<and>
   list_all one_of_four (update_background sd img) \<and>
   refresh css sd outcome d =
     d\<lparr>map_title := map_title (refresh css sd outcome d),
       server_name := server_name (refresh css sd outcome d),
       players_table := players_table (refresh css sd outcome d),
       background_image := background_image (refresh css sd outcome d)\<rparr> \<and>
   (\<forall>place. rest (refresh css sd outcome d) place = rest d place) \<and>
   perform_all css d (update_background sd img) =
     d\<lparr>background_image := background_image (perform_all css d (update_background sd img))\<rparr>"
proof -
  have four: "list_all one_of_four (fst (update_info_page sd outcome))"
    by (rule update_info_page_four)
  have "refresh css sd outcome d =
     d\<lparr>map_title := map_title (refresh css sd outcome d),
       server_name := server_name (refresh css sd outcome d),
       players_table := players_table (refresh css sd outcome d),
       background_image := background_image (refresh css sd outcome d)\<rparr>"
    unfolding refresh_def page_after_def by (rule perform_all_frame [OF four])
  moreover have "\<forall>place. rest (refresh css sd outcome d) place = rest d place"
    by (simp add: refresh_rest)
  ultimately show ?thesis
    using four update_background_four [of sd img] perform_all_background [of css d sd img]
    by blast
qed

theorem refresh_frame_witness:
  "rest (refresh quoted_url ''/s'' (Http_response 200 (Some example_response)) example_page)
     ''footer.innerHTML'' = ''About'' \<and>
   rest (perform_all quoted_url example_page (update_background ''/s'' (Some ''town.jpg'')))
     ''footer.innerHTML'' = ''About'' \<and>
   rest (perform_all quoted_url example_page [Write_elsewhere ''footer.innerHTML'' ''Gone''])
     ''footer.innerHTML'' = ''Gone''"
proof -
  note f = refresh_frame [where sd = "''/s''" and outcome = "Http_response 200 (Some example_response)"
      and d = example_page and img = "Some ''town.jpg''" and css = quoted_url]
  have "rest (refresh quoted_url ''/s'' (Http_response 200 (Some example_response)) example_page)
          ''footer.innerHTML'' = rest example_page ''footer.innerHTML''"
    using f by blast
  moreover have "rest (perform_all quoted_url example_page (update_background ''/s'' (Some ''town.jpg'')))
          = rest example_page"
    by (subst f [THEN conjunct2, THEN conjunct2, THEN conjunct2, THEN conjunct2]) simp
  ultimately show ?thesis
    by (simp add: example_page_def perform_all_Nil perform_all_Cons)
qed

section \<open>Responses with a missing property\<close>

text \<open>
  Claim C10 as stated gives a response without \<^verbatim>\<open>map\<close> as an example of a partial
  update. With \<^verbatim>\<open>map\<close> missing the callback throws in its first statement, before any
  write: the title and the rows are those from before.
\<close>

theorem missing_map_counterexample:
  "update_info_page ''/s'' (Http_response 200 (Some no_map_response)) = ([], Some TypeError) \<and>
   refresh quoted_url ''/s'' (Http_response 200 (Some no_map_response)) example_page = example_page \<and>
   map_title (refresh quoted_url ''/s'' (Http_response 200 (Some no_map_response)) example_page) = ''Old Map'' \<and>
   players_table (refresh quoted_url ''/s'' (Http_response 200 (Some no_map_response)) example_page)
     = [Element ''tr'' ''<td>Z</td><td>de</td>'']"
  by (simp add: refresh_def page_after_def update_info_page_def get_server_info_def
      render_callback_def no_map_response_def perform_all_def example_page_def)

text \<open>
  Claim C10, amended. For a parsed response that has \<^verbatim>\<open>map\<close> and whose \<^verbatim>\<open>players\<close> is
  missing or is not a sequence, the callback writes the map title and the server name,
  clears the table, makes the writes of \<open>update_background\<close>, and then throws a
  \<^verbatim>\<open>TypeError\<close>: no row is appended, and the document is left with these updates. For
  a parsed response without \<^verbatim>\<open>map\<close> the callback throws before any write and the
  document is unchanged.
\<close>

theorem malformed_response_partial_update:
  "(map_data data = Some m \<and> (players data = Missing \<or> players data = Not_a_sequence) \<longrightarrow>
      update_info_page sd (Http_response st (Some data)) =
        ([Set_map_title (to_string (map_info.name m)),
          Set_server_name (to_string (servername data)),
          Clear_players_table]
         @ update_background sd (image m), Some TypeError) \<and>
      refresh css sd (Http_response st (Some data)) d =
        perform_all css (d\<lparr>map_title := to_string (map_info.name m),
                        server_name := to_string (servername data),
                        players_table := []\<rparr>)
          (update_background sd (image m))) \<and>
   (map_data data = None \<longrightarrow>
      update_info_page sd (Http_response st (Some data)) = ([], Some TypeError) \<and>
      refresh css sd (Http_response st (Some data)) d = d)"
  by (auto simp: refresh_def page_after_def update_info_page_def get_server_info_def
      render_callback_def perform_all_Nil perform_all_Cons perform_all_append)

theorem malformed_response_partial_update_witness:
  "refresh quoted_url ''/s'' (Http_response 200 (Some no_players_response)) example_page =
     example_page\<lparr>map_title := ''St Mere Eglise'', server_name := ''Test Server'',
       players_table := [], background_image := ''url('/s/img/stmereeglise.jpg')''\<rparr> \<and>
   snd (update_info_page ''/s'' (Http_response 200 (Some no_players_response))) = Some TypeError \<and>
   refresh quoted_url ''/s'' (Http_response 200 (Some no_map_response)) example_page = example_page"
proof -
  have m: "map_data no_players_response =
             Some \<lparr>map_info.name = Some ''St Mere Eglise'', image = Some ''stmereeglise.jpg''\<rparr>"
    and p: "players no_players_response = Missing"
    and s: "servername no_players_response = Some ''Test Server''"
    and n: "map_data no_map_response = None"
    by (simp_all add: no_players_response_def no_map_response_def example_response_def)
  from malformed_response_partial_update [where data = no_players_response and sd = "''/s''"
      and st = 200 and d = example_page and css = quoted_url]
    malformed_response_partial_update [where data = no_map_response and sd = "''/s''"
      and st = 200 and d = example_page and css = quoted_url]
  show ?thesis
    by (simp add: m p s n to_string_def update_background_cases squote_def perform_all_Nil
        perform_all_Cons quoted_url_examples)
qed

end
